theory Spec2Isabelle
  imports
    Complex_Main
    "HOL-Library.Char_ord"
    "HOL-Library.List_Lexorder"
    "HOL-Library.Multiset"
begin

section \<open>The purchases table\<close>

text \<open>
  \<^verbatim>\<open>purchases.py\<close> loads one table with \<^verbatim>\<open>pd.read_csv\<close> and evaluates a
  sequence of independent dataframe expressions over it. A table is the list of its
  rows, in file order; the table without rows is the table of a file that has only
  the header line. The three columns the script reads are the fields of a row.
  An empty \<^verbatim>\<open>country\<close> cell is loaded as a missing value: it is \<open>None\<close>. The two
  numeric columns hold integers, as in the fixture of the specification, and are fully
  populated: \<^verbatim>\<open>read_csv\<close> gives such a column the type \<^verbatim>\<open>int64\<close>. A cell is the
  integer it holds. Columns of decimal fractions, whose sums and products are rounded,
  are outside the model.
\<close>

record purchase =
  country :: "string option"
  amount :: int
  discount :: int

text \<open>The frame that \<^verbatim>\<open>.assign(country_median=...)\<close> returns has one more column, of
  type \<^verbatim>\<open>float64\<close>, whose cells may be missing.\<close>

record purchase_cm = purchase +
  country_median :: "rat option"

text \<open>
  A column label is a string or an integer: \<^verbatim>\<open>reset_index()\<close> on an unnamed series
  labels the value column \<^verbatim>\<open>0\<close>, which the script renames to \<^verbatim>\<open>"total"\<close>.
  A series indexed by country is a list of (key, value) pairs in index order; a
  two-column result frame is such a list with the labels of its columns.
\<close>

datatype label = Name string | Position int

type_synonym keyed = "(string \<times> int) list"

record totals =
  labels :: "label list"
  body :: keyed

section \<open>The dataframe operations the script calls\<close>

text \<open>Arithmetic on \<^verbatim>\<open>int64\<close> wraps around silently: a result is reduced to the range
  from \<^verbatim>\<open>-2^63\<close> to \<^verbatim>\<open>2^63 - 1\<close>.\<close>

definition wrap64 :: "int \<Rightarrow> int" where
  "wrap64 n = (n + 2 ^ 63) mod 2 ^ 64 - 2 ^ 63"

text \<open>\<^verbatim>\<open>Series.sum()\<close> and the group-wise \<^verbatim>\<open>sum\<close> on an \<^verbatim>\<open>int64\<close> column: the sum
  of the cells with wrap-around, 0 for an empty series.\<close>

definition series_sum :: "int list \<Rightarrow> int" where
  "series_sum xs = wrap64 (sum_list xs)"

text \<open>\<^verbatim>\<open>a - b\<close> on two \<^verbatim>\<open>int64\<close> columns of one frame: cell by cell, with
  wrap-around.\<close>

definition series_sub :: "int list \<Rightarrow> int list \<Rightarrow> int list" where
  "series_sub xs ys = map (\<lambda>(a, d). wrap64 (a - d)) (zip xs ys)"

text \<open>
  \<^verbatim>\<open>Series.median()\<close>: the middle cell of the sorted series, the mean of the two
  middle cells when their number is even, and a missing value for an empty series.
  The result is a \<^verbatim>\<open>float64\<close>. Integers below \<^verbatim>\<open>2^53\<close> in absolute value and their
  halves are \<^verbatim>\<open>float64\<close> values, and sums and products of such values that stay
  below \<^verbatim>\<open>2^53\<close> are exact; the median, the threshold and the comparison below are
  the exact ones, which is what the code computes as long as the amounts are at most
  \<^verbatim>\<open>2^49\<close> in absolute value. The theorems that depend on the value of the threshold assume
  that bound.
\<close>

definition median :: "int list \<Rightarrow> rat option" where
  "median xs =
     (let ys = sort xs; n = length ys in
      if n = 0 then None
      else if odd n then Some (of_int (ys ! (n div 2)))
      else Some ((of_int (ys ! (n div 2 - 1)) + of_int (ys ! (n div 2))) / 2))"

text \<open>\<^verbatim>\<open>m * 10\<close> on a possibly missing scalar, and \<^verbatim>\<open>a <= thr\<close>, which is false when
  the threshold is missing.\<close>

definition times10 :: "rat option \<Rightarrow> rat option" where
  "times10 m = map_option (\<lambda>v. v * 10) m"

definition le_cell :: "int \<Rightarrow> rat option \<Rightarrow> bool" where
  "le_cell a thr = (case thr of None \<Rightarrow> False | Some v \<Rightarrow> of_int a \<le> v)"

text \<open>
  \<^verbatim>\<open>df.groupby(key)\<close> with the defaults \<^verbatim>\<open>sort=True\<close> and \<^verbatim>\<open>dropna=True\<close>: one group
  for each distinct key that is present, the groups in ascending key order, the rows
  of a group in the order of the frame. Rows whose key is missing are in no group.
\<close>

definition group_keys :: "('r \<Rightarrow> string option) \<Rightarrow> 'r list \<Rightarrow> string list" where
  "group_keys key rows = sort (remdups (List.map_filter key rows))"

definition groupby :: "('r \<Rightarrow> string option) \<Rightarrow> 'r list \<Rightarrow> (string \<times> 'r list) list" where
  "groupby key rows =
     map (\<lambda>k. (k, filter (\<lambda>r. key r = Some k) rows)) (group_keys key rows)"

text \<open>
  \<^verbatim>\<open>.apply(f)\<close> on the groups with a scalar-valued \<open>f\<close>. When there are groups the
  result is the series of the values of \<open>f\<close>, indexed by the keys. When there is no
  group, \<open>f\<close> is never called and pandas 2 returns an empty frame that has the columns
  of the grouped frame, \<^verbatim>\<open>country\<close> among them, and the empty index named
  \<^verbatim>\<open>country\<close>.
\<close>

datatype applied = ValueSeries keyed | EmptyFrame

definition apply_scalar :: "('r list \<Rightarrow> int) \<Rightarrow> (string \<times> 'r list) list \<Rightarrow> applied" where
  "apply_scalar f groups =
     (if groups = [] then EmptyFrame else ValueSeries (map (\<lambda>(k, g). (k, f g)) groups))"

text \<open>\<^verbatim>\<open>.apply(f)\<close> with a frame-valued \<open>f\<close>: the frames that \<open>f\<close> returns, one
  below the other in key order, an empty frame with the columns of the grouped frame
  when there is no group. The group keys go into the index of the result, which
  \<^verbatim>\<open>.reset_index(drop=True)\<close> replaces by a fresh one: a table is the list of its rows
  and keeps no index, so that step leaves it as it is.\<close>

definition apply_frame :: "('r list \<Rightarrow> 'r list) \<Rightarrow> (string \<times> 'r list) list \<Rightarrow> 'r list" where
  "apply_frame f groups = concat (map (\<lambda>(k, g). f g) groups)"

definition reset_index_drop :: "'r list \<Rightarrow> 'r list" where
  "reset_index_drop df = df"

text \<open>
  \<^verbatim>\<open>.reset_index()\<close> on the result of \<^verbatim>\<open>apply\<close>. On the series the index becomes
  the column \<^verbatim>\<open>country\<close> and the values the column \<^verbatim>\<open>0\<close>. On the empty frame the
  index cannot become a column, since the frame has a column \<^verbatim>\<open>country\<close> already:
  pandas raises \<^verbatim>\<open>ValueError\<close>. An expression that raises has the value \<open>None\<close>;
  which exception it raises is not recorded.
\<close>

definition reset_index :: "applied \<Rightarrow> totals option" where
  "reset_index ap =
     (case ap of
        ValueSeries s \<Rightarrow> Some \<lparr>labels = [Name ''country'', Position 0], body = s\<rparr>
      | EmptyFrame \<Rightarrow> None)"

text \<open>\<^verbatim>\<open>.rename(columns={0: "total"})\<close>.\<close>

definition rename_total :: "totals \<Rightarrow> totals" where
  "rename_total fr =
     fr\<lparr>labels := map (\<lambda>l. if l = Position 0 then Name ''total'' else l) (labels fr)\<rparr>"

text \<open>\<^verbatim>\<open>.agg(total=("amount", "sum"))\<close> and \<^verbatim>\<open>.reset_index()\<close> on its result: the
  value column is already named \<^verbatim>\<open>total\<close>, and the result has that column and the
  index \<^verbatim>\<open>country\<close> also when there is no group.\<close>

definition agg_total :: "(string \<times> 'a purchase_scheme list) list \<Rightarrow> keyed" where
  "agg_total groups = map (\<lambda>(k, g). (k, series_sum (map amount g))) groups"

definition reset_index_named :: "keyed \<Rightarrow> totals" where
  "reset_index_named s = \<lparr>labels = [Name ''country'', Name ''total''], body = s\<rparr>"

text \<open>\<^verbatim>\<open>groupby("country")["amount"].transform("median")\<close>: for each row of the frame
  the median of its group, missing for a row that is in no group.\<close>

definition transform_median :: "'a purchase_scheme list \<Rightarrow> rat option list" where
  "transform_median df =
     map (\<lambda>r. case country r of
                  None \<Rightarrow> None
                | Some c \<Rightarrow> (case map_of (groupby country df) c of
                               None \<Rightarrow> None
                             | Some g \<Rightarrow> median (map amount g))) df"

text \<open>\<^verbatim>\<open>.assign(country_median=f)\<close>: a new frame with the column that \<open>f\<close> computes
  from the frame appended.\<close>

definition assign_country_median ::
  "(purchase list \<Rightarrow> rat option list) \<Rightarrow> purchase list \<Rightarrow> purchase_cm list" where
  "assign_country_median f df =
     map (\<lambda>(r, m). \<lparr>country = country r, amount = amount r, discount = discount r,
                    country_median = m\<rparr>) (zip df (f df))"

section \<open>The expressions of the script\<close>

text \<open>\<^verbatim>\<open>lambda df: (df["amount"] - df["discount"]).sum()\<close>\<close>

definition net_sum :: "'a purchase_scheme list \<Rightarrow> int" where
  "net_sum df = series_sum (series_sub (map amount df) (map discount df))"

text \<open>\<^verbatim>\<open>lambda df: df[df["amount"] <= df["amount"].median() * 10]\<close>\<close>

definition keep_within_median :: "'a purchase_scheme list \<Rightarrow> 'a purchase_scheme list" where
  "keep_within_median df =
     filter (\<lambda>r. le_cell (amount r) (times10 (median (map amount df)))) df"

text \<open>\<^verbatim>\<open>.query("amount <= amount.median() * 10")\<close>\<close>

definition query_median :: "'a purchase_scheme list \<Rightarrow> 'a purchase_scheme list" where
  "query_median df =
     filter (\<lambda>r. le_cell (amount r) (times10 (median (map amount df)))) df"

text \<open>
  \<^verbatim>\<open>.query("amount <= country_median * 10")\<close>, on the frame with the added column.
  The columns of the table of a file without rows have no numeric type, and on the
  frame made from it the comparison raises \<^verbatim>\<open>TypeError\<close>.
\<close>

definition query_country_median :: "purchase_cm list \<Rightarrow> purchase_cm list option" where
  "query_country_median df =
     (if df = [] then None
      else Some (filter (\<lambda>r. le_cell (amount r) (times10 (country_median r))) df))"

text \<open>Line 4: \<^verbatim>\<open>purchases.head()\<close>, the first five rows.\<close>

definition head :: "purchase list \<Rightarrow> purchase list" where
  "head df = take 5 df"

text \<open>Line 7: \<^verbatim>\<open>purchases["amount"].sum()\<close>\<close>

definition total_sum :: "purchase list \<Rightarrow> int" where
  "total_sum purchases = series_sum (map amount purchases)"

text \<open>Lines 10 to 13: \<^verbatim>\<open>purchases.groupby("country")["amount"].sum()\<close>\<close>

definition sum_by_country :: "purchase list \<Rightarrow> keyed" where
  "sum_by_country purchases =
     map (\<lambda>(k, g). (k, series_sum (map amount g))) (groupby country purchases)"

text \<open>Lines 15 to 19: the same with \<^verbatim>\<open>.agg(total=("amount", "sum")).reset_index()\<close>\<close>

definition agg_by_country :: "purchase list \<Rightarrow> totals" where
  "agg_by_country purchases = reset_index_named (agg_total (groupby country purchases))"

text \<open>Lines 22 to 27: the net-of-discount total of each country. The expression
  raises when no row of the table has a country.\<close>

definition net_by_country :: "purchase list \<Rightarrow> totals option" where
  "net_by_country purchases =
     map_option rename_total
       (reset_index (apply_scalar net_sum (groupby country purchases)))"

text \<open>Lines 30 to 36: the same after the filter on the median of the whole table.\<close>

definition net_without_outliers :: "purchase list \<Rightarrow> totals option" where
  "net_without_outliers purchases =
     map_option rename_total
       (reset_index (apply_scalar net_sum (groupby country (query_median purchases))))"

text \<open>Lines 39 to 47: the filter applied inside each country group, the groups put
  together again, grouped once more and summed.\<close>

definition nested_filter :: "purchase list \<Rightarrow> purchase list" where
  "nested_filter purchases =
     reset_index_drop (apply_frame keep_within_median (groupby country purchases))"

definition net_nested :: "purchase list \<Rightarrow> totals option" where
  "net_nested purchases =
     map_option rename_total
       (reset_index (apply_scalar net_sum (groupby country (nested_filter purchases))))"

text \<open>Lines 50 to 59: the median of the row's country as a column, then one query.\<close>

definition assign_filter :: "purchase list \<Rightarrow> purchase_cm list option" where
  "assign_filter purchases =
     query_country_median (assign_country_median transform_median purchases)"

definition net_assign :: "purchase list \<Rightarrow> totals option" where
  "net_assign purchases =
     (case assign_filter purchases of
        None \<Rightarrow> None
      | Some df \<Rightarrow>
          map_option rename_total
            (reset_index (apply_scalar net_sum (groupby country df))))"

section \<open>The steps of the specification\<close>

text \<open>
  The specification describes the per-country filter in three steps: the median of
  \<^verbatim>\<open>amount\<close> of each country, the rows whose amount is at most ten times the median
  of their own country, and the sum of \<^verbatim>\<open>amount - discount\<close> of the remaining rows
  of each country. The definitions of this section follow those words, not the script,
  and compute in the integers and the rationals, without wrap-around.

  The median is defined by rank, not by sorting: the element of rank \<open>k\<close> of a list is
  the element that has at most \<open>k\<close> elements below it and more than \<open>k\<close> elements
  that are not above it, and the median is the element of middle rank, or the mean of
  the two elements of middle rank.
\<close>

definition kth_smallest :: "int list \<Rightarrow> nat \<Rightarrow> int option" where
  "kth_smallest xs k =
     find (\<lambda>x. length (filter (\<lambda>y. y < x) xs) \<le> k \<and> k < length (filter (\<lambda>y. y \<le> x) xs)) xs"

definition spec_median :: "int list \<Rightarrow> rat option" where
  "spec_median xs =
     (let n = length xs in
      if n = 0 then None
      else if odd n then map_option of_int (kth_smallest xs (n div 2))
      else (case (kth_smallest xs (n div 2 - 1), kth_smallest xs (n div 2)) of
              (Some a, Some b) \<Rightarrow> Some ((of_int a + of_int b) / 2)
            | _ \<Rightarrow> None))"

definition country_rows :: "'a purchase_scheme list \<Rightarrow> string \<Rightarrow> 'a purchase_scheme list" where
  "country_rows df c = filter (\<lambda>r. country r = Some c) df"

definition median_of_country :: "'a purchase_scheme list \<Rightarrow> string \<Rightarrow> rat option" where
  "median_of_country df c = spec_median (map amount (country_rows df c))"

definition within_country_median :: "'a purchase_scheme list \<Rightarrow> 'a purchase_scheme \<Rightarrow> bool" where
  "within_country_median df r =
     (case country r of
        None \<Rightarrow> False
      | Some c \<Rightarrow> (case median_of_country df c of
                     None \<Rightarrow> False
                   | Some m \<Rightarrow> of_int (amount r) \<le> 10 * m))"

definition spec_kept :: "purchase list \<Rightarrow> purchase list" where
  "spec_kept df = filter (within_country_median df) df"

definition spec_totals :: "purchase list \<Rightarrow> keyed" where
  "spec_totals df =
     map (\<lambda>c. (c, \<Sum>r\<leftarrow>country_rows (spec_kept df) c. amount r - discount r))
       (sorted_list_of_set (Option.these (country ` set (spec_kept df))))"

text \<open>The filter on the median of the whole table, in the same words.\<close>

definition within_table_median :: "'a purchase_scheme list \<Rightarrow> 'a purchase_scheme \<Rightarrow> bool" where
  "within_table_median df r =
     (case spec_median (map amount df) of
        None \<Rightarrow> False
      | Some m \<Rightarrow> of_int (amount r) \<le> 10 * m)"


text \<open>The rows whose country is present, and the three columns of the loaded table
  in a row of the frame with the added column.\<close>

definition rows_with_country :: "'a purchase_scheme list \<Rightarrow> 'a purchase_scheme list" where
  "rows_with_country df = filter (\<lambda>r. country r \<noteq> None) df"

definition base :: "purchase_cm \<Rightarrow> purchase" where
  "base r = \<lparr>country = country r, amount = amount r, discount = discount r\<rparr>"

text \<open>
  The range in which the arithmetic of the code is the arithmetic of the integers and
  the rationals. The amounts are small when each is at most \<^verbatim>\<open>2^49\<close> in absolute
  value: then every median, every threshold and every comparison of the code is exact.
  The amounts fit when their absolute values sum to less than \<^verbatim>\<open>2^63\<close>, and the net
  amounts fit when the absolute values of the amounts and the discounts together do:
  then no sum and no difference of the code wraps around.
\<close>

definition small_amounts :: "'a purchase_scheme list \<Rightarrow> bool" where
  "small_amounts df = list_all (\<lambda>r. \<bar>amount r\<bar> \<le> 2 ^ 49) df"


definition net_amounts_fit :: "'a purchase_scheme list \<Rightarrow> bool" where
  "net_amounts_fit df = ((\<Sum>r\<leftarrow>df. \<bar>amount r\<bar> + \<bar>discount r\<bar>) < 2 ^ 63)"

section \<open>Objects and the store\<close>

text \<open>
  Whether an expression changes the table it is evaluated on is a question about
  objects, so the statements of the script are also given over a store: the list of
  the objects allocated so far, an address being a position in it. A method call
  reads its receiver at an address of the store and ends in one of three ways. It
  returns a new object, which is appended to the store. Or it raises, and the store
  stays as the call found it. Or, when it is called with \<^verbatim>\<open>inplace=True\<close>, it
  overwrites its receiver and returns the object \<^verbatim>\<open>None\<close>. The methods of pandas
  that take \<^verbatim>\<open>inplace\<close> have it as a parameter here; the script passes it nowhere, so
  each call of the script has the default \<^verbatim>\<open>False\<close>. A group-by object refers to the
  frame it groups by address, as pandas does: it holds no rows of its own. The
  functions passed to \<^verbatim>\<open>apply\<close> and \<^verbatim>\<open>assign\<close> only read the frame they are given:
  they are the pure functions above.
\<close>

datatype obj =
    Frame "purchase list"
  | FrameCM "purchase_cm list"
  | Series "int list"
  | Scalar int
  | FrameGroupBy nat
  | SeriesGroupBy nat
  | KeyedSeries keyed
  | KeyedTotal keyed
  | Applied applied
  | Totals totals
  | PyNone

type_synonym store = "obj list"

text \<open>The outcome of a call: the address of the value, or \<open>None\<close> when the call
  raised, and the store the call leaves.\<close>

type_synonym outcome = "nat option \<times> store"

type_synonym pd_method = "nat \<Rightarrow> store \<Rightarrow> outcome"

definition lookup :: "store \<Rightarrow> nat \<Rightarrow> obj option" where
  "lookup s a = (if a < length s then Some (s ! a) else None)"

definition returning :: "obj \<Rightarrow> store \<Rightarrow> outcome" where
  "returning v s = (Some (length s), s @ [v])"

definition raising :: "store \<Rightarrow> outcome" where
  "raising s = (None, s)"

definition in_place :: "nat \<Rightarrow> obj \<Rightarrow> store \<Rightarrow> outcome" where
  "in_place a v s = (Some (length s), s[a := v] @ [PyNone])"

definition finish :: "bool \<Rightarrow> nat \<Rightarrow> obj \<Rightarrow> store \<Rightarrow> outcome" where
  "finish inplace a v s = (if inplace then in_place a v s else returning v s)"

text \<open>The next call of a chain is made on the value of the call before it; when that
  call raised, the chain has raised.\<close>

definition then_call :: "outcome \<Rightarrow> pd_method \<Rightarrow> outcome" where
  "then_call x m = (case x of (None, s) \<Rightarrow> (None, s) | (Some a, s) \<Rightarrow> m a s)"

definition m_head :: pd_method where
  "m_head a s =
     (case lookup s a of
        Some (Frame df) \<Rightarrow> returning (Frame (head df)) s
      | _ \<Rightarrow> raising s)"

definition m_groupby_country :: pd_method where
  "m_groupby_country a s =
     (case lookup s a of
        Some (Frame df) \<Rightarrow> returning (FrameGroupBy a) s
      | Some (FrameCM df) \<Rightarrow> returning (FrameGroupBy a) s
      | _ \<Rightarrow> raising s)"

definition m_getitem_amount :: pd_method where
  "m_getitem_amount a s =
     (case lookup s a of
        Some (Frame df) \<Rightarrow> returning (Series (map amount df)) s
      | Some (FrameGroupBy f) \<Rightarrow> returning (SeriesGroupBy f) s
      | _ \<Rightarrow> raising s)"

definition m_sum :: pd_method where
  "m_sum a s =
     (case lookup s a of
        Some (Series xs) \<Rightarrow> returning (Scalar (series_sum xs)) s
      | Some (SeriesGroupBy f) \<Rightarrow>
          (case lookup s f of
             Some (Frame df) \<Rightarrow>
               returning (KeyedSeries
                 (map (\<lambda>(k, g). (k, series_sum (map amount g))) (groupby country df))) s
           | _ \<Rightarrow> raising s)
      | _ \<Rightarrow> raising s)"

definition m_agg_total :: pd_method where
  "m_agg_total a s =
     (case lookup s a of
        Some (FrameGroupBy f) \<Rightarrow>
          (case lookup s f of
             Some (Frame df) \<Rightarrow> returning (KeyedTotal (agg_total (groupby country df))) s
           | _ \<Rightarrow> raising s)
      | _ \<Rightarrow> raising s)"

definition m_apply_net_sum :: pd_method where
  "m_apply_net_sum a s =
     (case lookup s a of
        Some (FrameGroupBy f) \<Rightarrow>
          (case lookup s f of
             Some (Frame df) \<Rightarrow>
               returning (Applied (apply_scalar net_sum (groupby country df))) s
           | Some (FrameCM df) \<Rightarrow>
               returning (Applied (apply_scalar net_sum (groupby country df))) s
           | _ \<Rightarrow> raising s)
      | _ \<Rightarrow> raising s)"

definition m_apply_keep_within_median :: pd_method where
  "m_apply_keep_within_median a s =
     (case lookup s a of
        Some (FrameGroupBy f) \<Rightarrow>
          (case lookup s f of
             Some (Frame df) \<Rightarrow>
               returning (Frame (apply_frame keep_within_median (groupby country df))) s
           | _ \<Rightarrow> raising s)
      | _ \<Rightarrow> raising s)"

text \<open>\<^verbatim>\<open>.reset_index(inplace=...)\<close>. The result of \<^verbatim>\<open>apply\<close> is a series when there
  are groups, and a series cannot be turned into a frame in place; on the empty frame
  the call raises as above.\<close>

definition m_reset_index :: "bool \<Rightarrow> pd_method" where
  "m_reset_index inplace a s =
     (case lookup s a of
        Some (Applied ap) \<Rightarrow>
          (case reset_index ap of
             None \<Rightarrow> raising s
           | Some fr \<Rightarrow> if inplace then raising s else returning (Totals fr) s)
      | Some (KeyedTotal ks) \<Rightarrow> finish inplace a (Totals (reset_index_named ks)) s
      | _ \<Rightarrow> raising s)"

text \<open>\<^verbatim>\<open>.reset_index(drop=True, inplace=...)\<close> on a frame.\<close>

definition m_reset_index_drop :: "bool \<Rightarrow> pd_method" where
  "m_reset_index_drop inplace a s =
     (case lookup s a of
        Some (Frame df) \<Rightarrow> finish inplace a (Frame (reset_index_drop df)) s
      | _ \<Rightarrow> raising s)"

text \<open>\<^verbatim>\<open>.rename(columns={0: "total"}, inplace=...)\<close>\<close>

definition m_rename_total :: "bool \<Rightarrow> pd_method" where
  "m_rename_total inplace a s =
     (case lookup s a of
        Some (Totals fr) \<Rightarrow> finish inplace a (Totals (rename_total fr)) s
      | _ \<Rightarrow> raising s)"

text \<open>\<^verbatim>\<open>.query("amount <= amount.median() * 10", inplace=...)\<close>\<close>

definition m_query_median :: "bool \<Rightarrow> pd_method" where
  "m_query_median inplace a s =
     (case lookup s a of
        Some (Frame df) \<Rightarrow> finish inplace a (Frame (query_median df)) s
      | _ \<Rightarrow> raising s)"

definition m_assign_country_median :: pd_method where
  "m_assign_country_median a s =
     (case lookup s a of
        Some (Frame df) \<Rightarrow> returning (FrameCM (assign_country_median transform_median df)) s
      | _ \<Rightarrow> raising s)"

text \<open>\<^verbatim>\<open>.query("amount <= country_median * 10", inplace=...)\<close>\<close>

definition m_query_country_median :: "bool \<Rightarrow> pd_method" where
  "m_query_country_median inplace a s =
     (case lookup s a of
        Some (FrameCM df) \<Rightarrow>
          (case query_country_median df of
             None \<Rightarrow> raising s
           | Some df' \<Rightarrow> finish inplace a (FrameCM df') s)
      | _ \<Rightarrow> raising s)"

text \<open>The statements of the script, each a chain of method calls on the object at
  the address \<open>p\<close> of \<^verbatim>\<open>purchases\<close>.\<close>

type_synonym statement = "nat \<Rightarrow> store \<Rightarrow> outcome"

definition run_head :: statement where
  "run_head p s = m_head p s"

definition run_total_sum :: statement where
  "run_total_sum p s = then_call (m_getitem_amount p s) m_sum"

definition run_sum_by_country :: statement where
  "run_sum_by_country p s =
     then_call (then_call (m_groupby_country p s) m_getitem_amount) m_sum"

definition run_agg_by_country :: statement where
  "run_agg_by_country p s =
     then_call (then_call (m_groupby_country p s) m_agg_total) (m_reset_index False)"

definition run_net_by_country :: statement where
  "run_net_by_country p s =
     then_call (then_call (then_call (m_groupby_country p s)
       m_apply_net_sum) (m_reset_index False)) (m_rename_total False)"

definition run_net_without_outliers :: statement where
  "run_net_without_outliers p s =
     then_call (then_call (then_call (then_call (m_query_median False p s)
       m_groupby_country) m_apply_net_sum) (m_reset_index False)) (m_rename_total False)"

definition run_net_nested :: statement where
  "run_net_nested p s =
     then_call (then_call (then_call (then_call (then_call (then_call
       (m_groupby_country p s)
       m_apply_keep_within_median) (m_reset_index_drop False))
       m_groupby_country) m_apply_net_sum) (m_reset_index False)) (m_rename_total False)"

definition run_net_assign :: statement where
  "run_net_assign p s =
     then_call (then_call (then_call (then_call (then_call
       (m_assign_country_median p s)
       (m_query_country_median False))
       m_groupby_country) m_apply_net_sum) (m_reset_index False)) (m_rename_total False)"

text \<open>The statements in the order of the file, and the value of each as the
  expressions of the previous sections compute it from the loaded table: \<open>None\<close> when
  the expression raises.\<close>

definition script :: "statement list" where
  "script =
     [run_head, run_total_sum, run_sum_by_country, run_agg_by_country, run_net_by_country,
      run_net_without_outliers, run_net_nested, run_net_assign]"

definition script_values :: "purchase list \<Rightarrow> obj option list" where
  "script_values purchases =
     [Some (Frame (head purchases)), Some (Scalar (total_sum purchases)),
      Some (KeyedSeries (sum_by_country purchases)), Some (Totals (agg_by_country purchases)),
      map_option Totals (net_by_country purchases),
      map_option Totals (net_without_outliers purchases),
      map_option Totals (net_nested purchases),
      map_option Totals (net_assign purchases)]"

definition value_of :: "outcome \<Rightarrow> obj option" where
  "value_of x = (case x of (None, s) \<Rightarrow> None | (Some a, s) \<Rightarrow> lookup s a)"

text \<open>A store has grown into another when the other begins with it: every object of
  the first is in the second, at its address and unchanged. A method allocates when,
  whatever store and receiver it is called on, the store has grown into the store it
  leaves and the address it returns, if any, is a new one.\<close>

definition grown :: "store \<Rightarrow> store \<Rightarrow> bool" where
  "grown s s' \<longleftrightarrow> length s \<le> length s' \<and> take (length s) s' = s"

definition fresh :: "store \<Rightarrow> outcome \<Rightarrow> bool" where
  "fresh s x \<longleftrightarrow>
     grown s (snd x) \<and>
     (case fst x of None \<Rightarrow> True | Some r \<Rightarrow> length s \<le> r \<and> r < length (snd x))"

definition allocating :: "pd_method \<Rightarrow> bool" where
  "allocating m \<longleftrightarrow> (\<forall>a s. fresh s (m a s))"

section \<open>Fixtures\<close>

text \<open>The two-row fixture of the specification.\<close>

definition fixture :: "purchase list" where
  "fixture =
     [\<lparr>country = Some ''US'', amount = 100, discount = 10\<rparr>,
      \<lparr>country = Some ''US'', amount = 50, discount = 5\<rparr>]"

text \<open>Three small sales in one country and one large sale in another.\<close>

definition two_countries :: "purchase list" where
  "two_countries =
     [\<lparr>country = Some ''US'', amount = 1, discount = 0\<rparr>,
      \<lparr>country = Some ''US'', amount = 1, discount = 0\<rparr>,
      \<lparr>country = Some ''US'', amount = 1, discount = 0\<rparr>,
      \<lparr>country = Some ''SE'', amount = 100, discount = 0\<rparr>]"


text \<open>A table on which the filter on the median of the whole table removes rows
  twice in a row.\<close>

definition shrinking :: "purchase list" where
  "shrinking =
     map (\<lambda>a. \<lparr>country = Some ''US'', amount = a, discount = 0\<rparr>)
       [1, 1, 1, 10, 100, 1000, 1000]"

text \<open>Three small sales without a country and one large sale with one.\<close>

definition unknown_origin :: "purchase list" where
  "unknown_origin =
     [\<lparr>country = None, amount = 1, discount = 0\<rparr>,
      \<lparr>country = None, amount = 1, discount = 0\<rparr>,
      \<lparr>country = None, amount = 1, discount = 0\<rparr>,
      \<lparr>country = Some ''US'', amount = 100, discount = 0\<rparr>]"

text \<open>Two refunds in one country: the median is negative, and no amount is at most
  ten times the median.\<close>

definition refunds :: "purchase list" where
  "refunds =
     [\<lparr>country = Some ''US'', amount = - 1, discount = 0\<rparr>,
      \<lparr>country = Some ''US'', amount = - 3, discount = 0\<rparr>]"

text \<open>Two rows whose amounts do not fit together.\<close>

definition overflowing :: "purchase list" where
  "overflowing =
     [\<lparr>country = Some ''US'', amount = 2 ^ 63 - 1, discount = 0\<rparr>,
      \<lparr>country = Some ''SE'', amount = 1, discount = 0\<rparr>]"

section \<open>Wrap-around\<close>

text \<open>Where the amounts fit, the sums and differences of the code are those of the
  integers.\<close>

lemma wrap64_exact: "\<bar>n\<bar> < 2 ^ 63 \<Longrightarrow> wrap64 n = n"
  by (simp add: wrap64_def)

lemma sum_list_filter_le:
  fixes f :: "'a \<Rightarrow> int"
  assumes "\<And>x. 0 \<le> f x"
  shows "sum_list (map f (filter P xs)) \<le> sum_list (map f xs)"
  by (induction xs) (auto simp: assms add_increasing)

lemma abs_sum_list_le:
  fixes f :: "'a \<Rightarrow> int"
  shows "\<bar>sum_list (map f xs)\<bar> \<le> sum_list (map (\<lambda>x. \<bar>f x\<bar>) xs)"
  by (induction xs) auto

lemma elem_le_abs_sum:
  fixes f :: "'a \<Rightarrow> int"
  assumes "x \<in> set xs" and "\<And>y. 0 \<le> f y"
  shows "f x \<le> sum_list (map f xs)"
proof -
  have nn: "0 \<le> sum_list (map f ys)" for ys
    by (rule sum_list_nonneg) (auto simp: assms(2))
  from assms(1) show ?thesis
    by (induction xs) (auto simp: assms(2) nn add_increasing add_increasing2)
qed


lemma net_sum_alt:
  "net_sum df = wrap64 (\<Sum>r\<leftarrow>df. wrap64 (amount r - discount r))"
  by (simp add: net_sum_def series_sum_def series_sub_def zip_map_map zip_same_conv_map comp_def)

lemma net_sum_filter_exact:
  assumes "net_amounts_fit df"
  shows "net_sum (filter P df) = (\<Sum>r\<leftarrow>filter P df. amount r - discount r)"
proof -
  let ?g = "filter P df"
  let ?w = "\<lambda>r. \<bar>amount r\<bar> + \<bar>discount r\<bar>"
  have fit: "sum_list (map ?w ?g) < 2 ^ 63"
  proof -
    have "sum_list (map ?w ?g) \<le> sum_list (map ?w df)"
      by (rule sum_list_filter_le) simp
    with assms show ?thesis by (simp add: net_amounts_fit_def)
  qed
  have cell: "wrap64 (amount r - discount r) = amount r - discount r" if "r \<in> set ?g" for r
  proof -
    have "\<bar>amount r - discount r\<bar> \<le> ?w r" by simp
    also have "\<dots> \<le> sum_list (map ?w ?g)"
      using that by (rule elem_le_abs_sum) simp
    finally show ?thesis using fit by (simp add: wrap64_exact)
  qed
  have "(\<Sum>r\<leftarrow>?g. wrap64 (amount r - discount r)) = (\<Sum>r\<leftarrow>?g. amount r - discount r)"
    by (rule arg_cong[where f = sum_list], rule map_cong) (simp_all add: cell)
  moreover have "\<bar>\<Sum>r\<leftarrow>?g. amount r - discount r\<bar> < 2 ^ 63"
  proof -
    have "\<bar>\<Sum>r\<leftarrow>?g. amount r - discount r\<bar> \<le> (\<Sum>r\<leftarrow>?g. \<bar>amount r - discount r\<bar>)"
      by (rule abs_sum_list_le)
    also have "\<dots> \<le> sum_list (map ?w ?g)"
      by (rule sum_list_mono) simp
    finally show ?thesis using fit by simp
  qed
  ultimately show ?thesis by (simp add: net_sum_alt wrap64_exact)
qed

text \<open>Where the amounts do not fit, a sum wraps around: the two amounts \<^verbatim>\<open>2^63 - 1\<close> and 1 sum
  to \<^verbatim>\<open>-2^63\<close>.\<close>

lemma total_sum_wraps: "total_sum overflowing = - (2 ^ 63)"
  by (simp add: total_sum_def series_sum_def wrap64_def overflowing_def)

section \<open>The median\<close>

text \<open>The median of the code, found by sorting, is the median by rank.\<close>

lemma sort_eq_Nil: "sort xs = [] \<longleftrightarrow> xs = []"
  by (metis length_sort length_0_conv)


lemma count_le_sorted:
  fixes ys :: "int list"
  assumes "sorted ys" "i < length ys"
  shows "i < length (filter (\<lambda>y. y \<le> ys ! i) ys)"
proof -
  have "\<forall>x\<in>set (take (i + 1) ys). x \<le> ys ! i"
  proof
    fix x assume "x \<in> set (take (i + 1) ys)"
    then obtain j where j: "j < i + 1" "j < length ys" "x = ys ! j"
      by (auto simp: in_set_conv_nth)
    with assms have "ys ! j \<le> ys ! i"
      by (simp add: sorted_nth_mono)
    with j show "x \<le> ys ! i" by simp
  qed
  then have "filter (\<lambda>y. y \<le> ys ! i) (take (i + 1) ys) = take (i + 1) ys"
    by (simp add: filter_id_conv)
  moreover have "filter (\<lambda>y. y \<le> ys ! i) ys
      = filter (\<lambda>y. y \<le> ys ! i) (take (i + 1) ys) @ filter (\<lambda>y. y \<le> ys ! i) (drop (i + 1) ys)"
    by (metis append_take_drop_id filter_append)
  ultimately have "length (take (i + 1) ys) \<le> length (filter (\<lambda>y. y \<le> ys ! i) ys)"
    by simp
  with assms(2) show ?thesis by simp
qed

lemma count_lt_sorted:
  fixes ys :: "int list"
  assumes "sorted ys" "i < length ys"
  shows "length (filter (\<lambda>y. y < ys ! i) ys) \<le> i"
proof -
  have "\<forall>x\<in>set (drop i ys). \<not> x < ys ! i"
  proof
    fix x assume "x \<in> set (drop i ys)"
    then obtain j where j: "j < length ys - i" "x = ys ! (i + j)"
      by (auto simp: in_set_conv_nth)
    with assms have "ys ! i \<le> ys ! (i + j)"
      by (simp add: sorted_nth_mono)
    with j show "\<not> x < ys ! i" by simp
  qed
  then have "filter (\<lambda>y. y < ys ! i) (drop i ys) = []"
    by (simp add: filter_empty_conv)
  moreover have "filter (\<lambda>y. y < ys ! i) ys
      = filter (\<lambda>y. y < ys ! i) (take i ys) @ filter (\<lambda>y. y < ys ! i) (drop i ys)"
    by (metis append_take_drop_id filter_append)
  ultimately have "length (filter (\<lambda>y. y < ys ! i) ys) = length (filter (\<lambda>y. y < ys ! i) (take i ys))"
    by simp
  also have "\<dots> \<le> length (take i ys)" by (rule length_filter_le)
  finally show ?thesis by simp
qed

lemma length_filter_sort: "length (filter P (sort xs)) = length (filter P xs)"
proof -
  have "mset (filter P (sort xs)) = mset (filter P xs)" by simp
  then show ?thesis by (metis size_mset)
qed

lemma length_filter_mono:
  assumes "\<And>x. P x \<Longrightarrow> Q x"
  shows "length (filter P xs) \<le> length (filter Q xs)"
  by (induction xs) (auto dest: assms)

lemma kth_smallest_sort:
  assumes "k < length xs"
  shows "kth_smallest xs k = Some (sort xs ! k)"
proof -
  define v where "v = sort xs ! k"
  define R where "R = (\<lambda>x. length (filter (\<lambda>y. y < x) xs) \<le> k \<and> k < length (filter (\<lambda>y. y \<le> x) xs))"
  have k: "k < length (sort xs)" and s: "sorted (sort xs)" using assms by simp_all
  have lt: "length (filter (\<lambda>y. y < v) xs) \<le> k"
    using count_lt_sorted[OF s k] by (simp add: v_def length_filter_sort)
  have le: "k < length (filter (\<lambda>y. y \<le> v) xs)"
    using count_le_sorted[OF s k] by (simp add: v_def length_filter_sort)
  have Rv: "R v" using lt le by (simp add: R_def)
  have uniq: "x = v" if "R x" for x
  proof (rule ccontr)
    assume "x \<noteq> v"
    then consider "x < v" | "v < x" by linarith
    then show False
    proof cases
      case 1
      have "length (filter (\<lambda>y. y \<le> x) xs) \<le> length (filter (\<lambda>y. y < v) xs)"
        by (rule length_filter_mono) (use 1 in simp)
      with lt that show False by (simp add: R_def)
    next
      case 2
      have "length (filter (\<lambda>y. y \<le> v) xs) \<le> length (filter (\<lambda>y. y < x) xs)"
        by (rule length_filter_mono) (use 2 in simp)
      with le that show False by (simp add: R_def)
    qed
  qed
  have "v \<in> set xs"
    using k by (metis nth_mem set_sort v_def)
  with Rv have "find R xs \<noteq> None"
    by (auto simp: find_None_iff)
  then obtain x where x: "find R xs = Some x" by blast
  then have "R x" by (auto simp: find_Some_iff)
  with uniq x have "find R xs = Some v" by simp
  then show ?thesis by (simp add: kth_smallest_def R_def v_def)
qed

lemma median_spec: "median xs = spec_median xs"
proof (cases "xs = []")
  case True
  then show ?thesis by (simp add: median_def spec_median_def)
next
  case False
  then have n: "0 < length xs" by simp
  show ?thesis
  proof (cases "odd (length xs)")
    case True
    from n have "length xs div 2 < length xs" by simp
    with True n show ?thesis
      by (simp add: median_def spec_median_def Let_def kth_smallest_sort sort_eq_Nil)
  next
    case False
    from n have "length xs div 2 < length xs" by simp
    then have "length xs div 2 - 1 < length xs" "length xs div 2 < length xs" by linarith+
    with False n show ?thesis
      by (simp add: median_def spec_median_def Let_def kth_smallest_sort sort_eq_Nil)
  qed
qed

section \<open>Grouping\<close>

lemma set_map_filter: "set (List.map_filter f xs) = {y. \<exists>x\<in>set xs. f x = Some y}"
  by (induction xs) (auto split: option.splits)

lemma set_group_keys: "set (group_keys key rows) = {k. \<exists>r\<in>set rows. key r = Some k}"
  by (simp add: group_keys_def set_map_filter)

lemma distinct_group_keys: "distinct (group_keys key rows)"
  by (simp add: group_keys_def)

lemma sorted_group_keys: "sorted (group_keys key rows)"
  by (simp add: group_keys_def)

lemma group_keys_cong:
  assumes "\<And>c. (\<exists>r\<in>set xs. key r = Some c) \<longleftrightarrow> (\<exists>r\<in>set ys. key' r = Some c)"
  shows "group_keys key xs = group_keys key' ys"
proof -
  have "set (List.map_filter key xs) = set (List.map_filter key' ys)"
    using assms by (auto simp: set_map_filter)
  then have "sorted_list_of_set (set (List.map_filter key xs))
           = sorted_list_of_set (set (List.map_filter key' ys))" by simp
  then show ?thesis
    by (simp add: group_keys_def sorted_list_of_set_sort_remdups)
qed

lemma groupby_cong:
  assumes "\<And>c. filter (\<lambda>r. key r = Some c) xs = filter (\<lambda>r. key r = Some c) ys"
  shows "groupby key xs = groupby key ys"
proof -
  have "(\<exists>r\<in>set xs. key r = Some c) \<longleftrightarrow> (\<exists>r\<in>set ys. key r = Some c)" for c
  proof -
    have "(\<exists>r\<in>set xs. key r = Some c) \<longleftrightarrow> filter (\<lambda>r. key r = Some c) xs \<noteq> []"
      by (simp add: filter_empty_conv)
    also have "\<dots> \<longleftrightarrow> filter (\<lambda>r. key r = Some c) ys \<noteq> []" by (simp add: assms)
    also have "\<dots> \<longleftrightarrow> (\<exists>r\<in>set ys. key r = Some c)"
      by (simp add: filter_empty_conv)
    finally show ?thesis .
  qed
  then have "group_keys key xs = group_keys key ys" by (rule group_keys_cong)
  then show ?thesis by (simp add: groupby_def assms)
qed

lemma groupby_Nil_iff: "groupby key rows = [] \<longleftrightarrow> (\<forall>r\<in>set rows. key r = None)"
proof -
  have "groupby key rows = [] \<longleftrightarrow> set (group_keys key rows) = {}"
    by (simp add: groupby_def)
  also have "\<dots> \<longleftrightarrow> (\<forall>r\<in>set rows. key r = None)"
    by (simp add: set_group_keys) (metis not_Some_eq)
  finally show ?thesis .
qed

lemma concat_single_key:
  "distinct ks \<Longrightarrow> concat (map (\<lambda>k. if k = c then A else []) ks) = (if c \<in> set ks then A else [])"
  by (induction ks) auto

lemma map_of_groupby:
  "map_of (groupby key rows) c =
     (if c \<in> set (group_keys key rows) then Some (filter (\<lambda>r. key r = Some c) rows) else None)"
  by (simp add: groupby_def map_of_map_restrict restrict_map_def)


lemma mset_eq_by_key:
  assumes xs: "\<And>r. r \<in> set xs \<Longrightarrow> key r \<noteq> None"
    and ys: "\<And>r. r \<in> set ys \<Longrightarrow> key r \<noteq> None"
    and eq: "\<And>c. filter (\<lambda>r. key r = Some c) xs = filter (\<lambda>r. key r = Some c) ys"
  shows "mset xs = mset ys"
proof (rule multiset_eqI)
  fix r
  show "count (mset xs) r = count (mset ys) r"
  proof (cases "key r")
    case None
    then have "r \<notin> set xs" "r \<notin> set ys" using xs[of r] ys[of r] by force+
    then have "count (mset xs) r = 0" "count (mset ys) r = 0"
      by (simp_all only: count_mset_0_iff not_False_eq_True)
    then show ?thesis by (simp only:)
  next
    case (Some c)
    have *: "count (mset zs) r = count (mset (filter (\<lambda>r. key r = Some c) zs)) r" for zs
      using Some by simp
    have "count (mset xs) r = count (mset (filter (\<lambda>r. key r = Some c) xs)) r"
      by (rule *)
    also have "\<dots> = count (mset (filter (\<lambda>r. key r = Some c) ys)) r"
      by (simp only: eq)
    also have "\<dots> = count (mset ys) r"
      by (rule *[symmetric])
    finally show ?thesis .
  qed
qed








section \<open>The per-country filter\<close>

lemma keep_within_median_country_rows:
  "keep_within_median (country_rows df c) = country_rows (filter (within_country_median df) df) c"
proof -
  have "keep_within_median (country_rows df c) =
        filter (\<lambda>r. country r = Some c \<and> le_cell (amount r) (times10 (median_of_country df c))) df"
    by (simp add: keep_within_median_def country_rows_def median_of_country_def median_spec
        conj_commute)
  also have "\<dots> = filter (\<lambda>r. within_country_median df r \<and> country r = Some c) df"
    by (rule filter_cong)
       (auto simp: within_country_median_def times10_def le_cell_def mult.commute
             split: option.splits)
  finally show ?thesis by (simp add: country_rows_def)
qed

lemma nested_filter_alt:
  "nested_filter df = concat (map (\<lambda>k. keep_within_median (country_rows df k)) (group_keys country df))"
  by (simp add: nested_filter_def reset_index_drop_def apply_frame_def groupby_def
      country_rows_def comp_def)

lemma country_rows_keep:
  "country_rows (keep_within_median (country_rows df k)) c =
     (if k = c then keep_within_median (country_rows df k) else [])"
proof (cases "k = c")
  case True
  have "filter (\<lambda>r. country r = Some c) (keep_within_median (country_rows df c))
        = keep_within_median (country_rows df c)"
    by (rule filter_True) (simp add: keep_within_median_def country_rows_def)
  with True show ?thesis by (simp add: country_rows_def)
next
  case False
  then show ?thesis
    by (auto simp: country_rows_def keep_within_median_def filter_empty_conv)
qed

lemma country_rows_concat: "country_rows (concat xss) c = concat (map (\<lambda>xs. country_rows xs c) xss)"
  by (simp add: country_rows_def filter_concat)

lemma country_rows_nested_filter:
  "country_rows (nested_filter df) c = country_rows (filter (within_country_median df) df) c"
proof -
  have "country_rows (nested_filter df) c =
        concat (map (\<lambda>k. if k = c then keep_within_median (country_rows df c) else []) (group_keys country df))"
    by (simp add: nested_filter_alt country_rows_concat comp_def country_rows_keep cong: if_cong)
  also have "\<dots> = (if c \<in> set (group_keys country df) then keep_within_median (country_rows df c) else [])"
    by (rule concat_single_key) (rule distinct_group_keys)
  also have "\<dots> = keep_within_median (country_rows df c)"
    by (auto simp: set_group_keys country_rows_def keep_within_median_def filter_empty_conv)
  finally show ?thesis by (simp add: keep_within_median_country_rows)
qed

lemma groupby_nested_filter:
  "groupby country (nested_filter df) = groupby country (spec_kept df)"
  unfolding spec_kept_def
  by (rule groupby_cong) (use country_rows_nested_filter in \<open>simp add: country_rows_def\<close>)

lemma mset_nested_filter: "mset (nested_filter df) = mset (spec_kept df)"
  unfolding spec_kept_def
proof (rule mset_eq_by_key[where key = country])
  show "country r \<noteq> None" if "r \<in> set (nested_filter df)" for r
    using that by (auto simp: nested_filter_alt keep_within_median_def country_rows_def)
  show "country r \<noteq> None" if "r \<in> set (filter (within_country_median df) df)" for r
    using that by (auto simp: within_country_median_def split: option.splits)
  show "filter (\<lambda>r. country r = Some c) (nested_filter df)
        = filter (\<lambda>r. country r = Some c) (filter (within_country_median df) df)" for c
    using country_rows_nested_filter[of df c] by (simp add: country_rows_def)
qed

lemma group_keys_these:
  "group_keys key rows = sorted_list_of_set (Option.these (key ` set rows))"
proof -
  have "Option.these (key ` set rows) = set (List.map_filter key rows)"
    by (force simp: set_map_filter in_these_eq image_iff)
  then show ?thesis
    by (simp add: group_keys_def sorted_list_of_set_sort_remdups)
qed

lemma apply_scalar_groupby:
  "apply_scalar f (groupby key rows) =
     (if groupby key rows = [] then EmptyFrame
      else ValueSeries (map (\<lambda>k. (k, f (filter (\<lambda>r. key r = Some k) rows))) (group_keys key rows)))"
  by (simp add: apply_scalar_def) (simp add: groupby_def comp_def)

lemma transform_median_alt:
  "transform_median df =
     map (\<lambda>r. case country r of None \<Rightarrow> None | Some c \<Rightarrow> median_of_country df c) df"
  unfolding transform_median_def
  by (rule map_cong)
     (auto simp: map_of_groupby set_group_keys median_of_country_def country_rows_def
           median_spec split: option.splits)

lemma assign_country_median_alt:
  "assign_country_median transform_median df =
     map (\<lambda>r. \<lparr>country = country r, amount = amount r, discount = discount r,
                  country_median = (case country r of None \<Rightarrow> None
                                    | Some c \<Rightarrow> median_of_country df c)\<rparr>) df"
  by (simp add: assign_country_median_def transform_median_alt zip_map2 zip_same_conv_map comp_def)

lemma assign_filter_Nil: "assign_filter [] = None"
  by (simp add: assign_filter_def assign_country_median_def query_country_median_def)

lemma base_assign_filter:
  assumes "df \<noteq> []"
  shows "\<exists>X. assign_filter df = Some X \<and> map base X = spec_kept df"
proof -
  let ?A = "assign_country_median transform_median df"
  let ?X = "filter (\<lambda>r. le_cell (amount r) (times10 (country_median r))) ?A"
  from assms have "?A \<noteq> []" by (simp add: assign_country_median_alt)
  then have X: "assign_filter df = Some ?X"
    by (simp add: assign_filter_def query_country_median_def)
  have "map base ?X = map (\<lambda>r. r) (filter (within_country_median df) df)"
    unfolding assign_country_median_alt filter_map map_map
    by (rule arg_cong2[where f = map], (rule ext, simp add: base_def),
        rule filter_cong, simp,
        auto simp: within_country_median_def le_cell_def times10_def mult.commute
             split: option.splits)
  with X show ?thesis by (simp add: spec_kept_def)
qed

lemma net_sum_base: "net_sum (map base g) = net_sum g"
  by (simp add: net_sum_alt comp_def base_def)

lemma apply_net_sum_base:
  "apply_scalar net_sum (groupby country (map base X)) = apply_scalar net_sum (groupby country X)"
proof -
  have k: "group_keys country (map base X) = group_keys country X"
    by (rule group_keys_cong) (simp add: base_def)
  have f: "filter (\<lambda>r. country r = Some c) (map base X)
           = map base (filter (\<lambda>r. country r = Some c) X)" for c
    by (simp add: filter_map comp_def base_def)
  have e: "groupby country (map base X) = [] \<longleftrightarrow> groupby country X = []"
    by (simp add: groupby_def k)
  show ?thesis
    by (simp add: apply_scalar_groupby k f e net_sum_base)
qed

lemma net_nested_kept:
  "net_nested df =
     map_option rename_total (reset_index (apply_scalar net_sum (groupby country (spec_kept df))))"
  by (simp add: net_nested_def groupby_nested_filter)

lemma spec_kept_Nil: "spec_kept [] = []"
  by (simp add: spec_kept_def)

lemma net_assign_kept:
  "net_assign df =
     map_option rename_total (reset_index (apply_scalar net_sum (groupby country (spec_kept df))))"
proof (cases "df = []")
  case True
  then show ?thesis
    by (simp add: net_assign_def assign_filter_Nil spec_kept_Nil groupby_def group_keys_def
        apply_scalar_def reset_index_def)
next
  case False
  then obtain X where X: "assign_filter df = Some X" "map base X = spec_kept df"
    using base_assign_filter by blast
  from apply_net_sum_base[of X] X show ?thesis
    by (simp add: net_assign_def)
qed


lemma groupby_spec_kept_Nil: "groupby country (spec_kept df) = [] \<longleftrightarrow> spec_kept df = []"
proof -
  have "country r \<noteq> None" if "r \<in> set (spec_kept df)" for r
    using that by (auto simp: spec_kept_def within_country_median_def split: option.splits)
  then have "(\<forall>r\<in>set (spec_kept df). country r = None) \<longleftrightarrow> spec_kept df = []"
    by (cases "spec_kept df") auto
  then show ?thesis by (simp add: groupby_Nil_iff)
qed

lemma net_sum_country_rows_kept:
  assumes "net_amounts_fit df"
  shows "net_sum (country_rows (spec_kept df) c)
           = (\<Sum>r\<leftarrow>country_rows (spec_kept df) c. amount r - discount r)"
proof -
  have "country_rows (spec_kept df) c
          = filter (\<lambda>r. within_country_median df r \<and> country r = Some c) df"
    by (simp add: country_rows_def spec_kept_def conj_commute)
  with net_sum_filter_exact[OF assms, of "\<lambda>r. within_country_median df r \<and> country r = Some c"]
  show ?thesis by simp
qed

text \<open>
  C2, as amended. For every table whose amounts are integers of absolute value at most
  \<^verbatim>\<open>2^49\<close> and whose amounts and discounts sum in absolute value to less than
  \<^verbatim>\<open>2^63\<close>, the rows that the nested-apply expression (lines 39 to 47) keeps are the
  rows whose amount is at most ten times the median of \<^verbatim>\<open>amount\<close> of their own
  country, each as often as the table has it. When there is such a row, the totals of
  the expression are, for each country left, the sum of \<^verbatim>\<open>amount - discount\<close> over
  those rows; when there is none, the expression raises.
\<close>

theorem nested_filter_computes_spec:
  assumes "small_amounts purchases" and "net_amounts_fit purchases"
  shows "mset (nested_filter purchases) = mset (spec_kept purchases) \<and>
   net_nested purchases =
     (if spec_kept purchases = [] then None
      else Some \<lparr>labels = [Name ''country'', Name ''total''],
                 body = spec_totals purchases\<rparr>)"
proof -
  have "map (\<lambda>k. (k, net_sum (filter (\<lambda>r. country r = Some k) (spec_kept purchases))))
          (group_keys country (spec_kept purchases)) = spec_totals purchases"
    using net_sum_country_rows_kept[OF assms(2)]
    by (simp add: spec_totals_def group_keys_these country_rows_def)
  then show ?thesis
    by (simp add: mset_nested_filter net_nested_kept apply_scalar_groupby
        groupby_spec_kept_Nil reset_index_def rename_total_def)
qed

lemma spec_kept_two_countries: "spec_kept two_countries = two_countries"
  by (simp add: spec_kept_def within_country_median_def median_of_country_def
      country_rows_def median_spec[symmetric] median_def two_countries_def)

text \<open>Witness for C2: on the table of two countries every row is kept, and the totals
  are 100 for SE and 3 for US.\<close>

theorem nested_filter_computes_spec_witness:
  "small_amounts two_countries \<and> net_amounts_fit two_countries \<and>
   mset (nested_filter two_countries) = mset (spec_kept two_countries) \<and>
   net_nested two_countries =
     Some \<lparr>labels = [Name ''country'', Name ''total''],
            body = [(''SE'', 100), (''US'', 3)]\<rparr>"
proof -
  have h1: "small_amounts two_countries"
    by (simp add: small_amounts_def two_countries_def)
  have h2: "net_amounts_fit two_countries"
    by (simp add: net_amounts_fit_def two_countries_def)
  have t: "spec_totals two_countries = [(''SE'', 100), (''US'', 3)]"
    unfolding spec_totals_def spec_kept_two_countries
    by (simp add: two_countries_def country_rows_def in_these_eq image_iff
        sorted_list_of_set_sort_remdups[symmetric] group_keys_these[symmetric]
        group_keys_def)
  have "spec_kept two_countries \<noteq> []"
    unfolding spec_kept_two_countries by (simp add: two_countries_def)
  with h1 h2 t nested_filter_computes_spec[OF h1 h2] show ?thesis by simp
qed

text \<open>
  C2, as stated, fails on the table of two refunds: no row is at most ten times the
  negative median, the totals of the three steps are the empty list, and the
  expression raises.
\<close>

theorem nested_filter_counterexample:
  "map_option body (net_nested refunds) \<noteq> Some (spec_totals refunds)"
  by (simp add: net_nested_def nested_filter_def reset_index_drop_def apply_frame_def
      keep_within_median_def median_def le_cell_def times10_def groupby_def group_keys_def
      apply_scalar_def reset_index_def refunds_def)

section \<open>The filter on the median of the whole table\<close>

lemma query_median_alt: "query_median df = filter (within_table_median df) df"
  unfolding query_median_def
  by (rule filter_cong)
     (auto simp: within_table_median_def le_cell_def times10_def mult.commute median_spec
           split: option.splits)




text \<open>Without that condition a second pass can remove rows.\<close>

lemma shrinks_twice:
  "query_median (query_median shrinking) \<noteq> query_median shrinking"
  by (simp add: query_median_def shrinking_def median_def le_cell_def times10_def)

section \<open>The fixture\<close>

text \<open>
  C5. On the two-row fixture the total sum is 150, and the net-of-discount group-by
  expression returns one row, US with the total 135.
\<close>

theorem fixture_totals:
  "total_sum fixture = 150 \<and>
   net_by_country fixture =
     Some \<lparr>labels = [Name ''country'', Name ''total''], body = [(''US'', 135)]\<rparr>"
  by (simp add: total_sum_def net_by_country_def rename_total_def reset_index_def
      apply_scalar_def groupby_def group_keys_def net_sum_def series_sum_def series_sub_def
      wrap64_def fixture_def)

section \<open>Which median each filter uses\<close>

lemma base_assign_filter_cases:
  "map_option (map base) (assign_filter df) = (if df = [] then None else Some (spec_kept df))"
proof (cases "df = []")
  case True
  then show ?thesis by (simp add: assign_filter_Nil)
next
  case False
  then obtain X where "assign_filter df = Some X" "map base X = spec_kept df"
    using base_assign_filter by blast
  with False show ?thesis by simp
qed

text \<open>
  C6, as amended. On a table whose amounts are integers of absolute value at most
  \<^verbatim>\<open>2^49\<close>: the filter of the first outlier expression (lines 30 to 36) keeps exactly
  the rows whose amount is at most ten times the median of \<^verbatim>\<open>amount\<close> over the whole
  table. The filters of the two later expressions (lines 39 to 47 and 50 to 59) keep
  exactly the rows that have a country and whose amount is at most ten times the
  median of \<^verbatim>\<open>amount\<close> within that country; on the table without rows the last one
  raises.
\<close>

theorem outlier_filter_thresholds:
  assumes "small_amounts purchases"
  shows "query_median purchases = filter (within_table_median purchases) purchases \<and>
   mset (nested_filter purchases) = mset (filter (within_country_median purchases) purchases) \<and>
   map_option (map base) (assign_filter purchases) =
     (if purchases = [] then None
      else Some (filter (within_country_median purchases) purchases))"
  using mset_nested_filter[of purchases] base_assign_filter_cases[of purchases]
  by (simp add: query_median_alt spec_kept_def)

text \<open>Witness for C6: on the table of two countries the first filter keeps the three
  sales of US, and the two later filters keep all four rows.\<close>

theorem outlier_filter_thresholds_witness:
  "small_amounts two_countries \<and>
   query_median two_countries = filter (within_table_median two_countries) two_countries \<and>
   mset (nested_filter two_countries)
     = mset (filter (within_country_median two_countries) two_countries) \<and>
   map_option (map base) (assign_filter two_countries)
     = Some (filter (within_country_median two_countries) two_countries) \<and>
   query_median two_countries = take 3 two_countries \<and>
   filter (within_country_median two_countries) two_countries = two_countries"
proof -
  have h: "small_amounts two_countries"
    by (simp add: small_amounts_def two_countries_def)
  have q: "query_median two_countries = take 3 two_countries"
    by (simp add: query_median_def two_countries_def median_def le_cell_def times10_def)
  have k: "filter (within_country_median two_countries) two_countries = two_countries"
    using spec_kept_two_countries by (simp add: spec_kept_def)
  have n: "two_countries \<noteq> []" by (simp add: two_countries_def)
  from outlier_filter_thresholds[OF h] n
  have "query_median two_countries = filter (within_table_median two_countries) two_countries"
    and "mset (nested_filter two_countries)
     = mset (filter (within_country_median two_countries) two_countries)"
    and "map_option (map base) (assign_filter two_countries)
     = Some (filter (within_country_median two_countries) two_countries)"
    by simp_all
  with h q k show ?thesis by (intro conjI)
qed

text \<open>
  C6, as stated, fails for the first outlier expression: on the table of two countries
  it removes the large sale, whose amount is the median of its own country.
\<close>

theorem group_median_counterexample:
  "query_median two_countries \<noteq> filter (within_country_median two_countries) two_countries"
  using spec_kept_two_countries
  by (simp add: spec_kept_def query_median_def two_countries_def median_def le_cell_def
      times10_def)

section \<open>Rows without a country\<close>

lemma groupby_rows_with_country:
  "groupby country (rows_with_country df) = groupby country df"
  by (rule groupby_cong) (simp add: rows_with_country_def conj_commute cong: conj_cong)

lemma nested_filter_rows_with_country:
  "nested_filter (rows_with_country df) = nested_filter df"
  by (simp add: nested_filter_def groupby_rows_with_country)

lemma unknown_origin_moves_median:
  "net_without_outliers unknown_origin \<noteq> net_without_outliers (rows_with_country unknown_origin)"
  by (simp add: net_without_outliers_def rename_total_def reset_index_def apply_scalar_def
      groupby_def group_keys_def query_median_def median_def le_cell_def times10_def
      rows_with_country_def unknown_origin_def)

text \<open>
  C9. No group-by expression counts a row without a country in any total: the sum,
  the aggregation, the net totals and the two per-country filters return what they
  return on the table without those rows, and the expression that filters on the
  median of the whole table returns the net totals of the filtered table without
  those rows. (The rows without a country do count in the median of the whole table,
  as the lemma before shows.)
\<close>

theorem missing_country_excluded:
  "sum_by_country purchases = sum_by_country (rows_with_country purchases) \<and>
   agg_by_country purchases = agg_by_country (rows_with_country purchases) \<and>
   net_by_country purchases = net_by_country (rows_with_country purchases) \<and>
   net_without_outliers purchases = net_by_country (rows_with_country (query_median purchases)) \<and>
   net_nested purchases = net_nested (rows_with_country purchases) \<and>
   net_assign purchases = net_assign (rows_with_country purchases)"
proof -
  have "net_assign df = net_nested df" for df
    by (simp add: net_nested_kept net_assign_kept)
  then show ?thesis
    by (simp add: sum_by_country_def agg_by_country_def net_by_country_def
        net_without_outliers_def net_nested_def groupby_rows_with_country
        nested_filter_rows_with_country)
qed

section \<open>The table without rows\<close>

text \<open>
  C10, as amended. On the table without rows the total sum is 0, and the group-by sum
  and the group-by aggregation return a result without groups. The four expressions
  that end in \<^verbatim>\<open>.apply(...).reset_index()\<close> raise.
\<close>

theorem empty_table_results:
  "total_sum [] = 0 \<and> sum_by_country [] = [] \<and> body (agg_by_country []) = [] \<and>
   net_by_country [] = None \<and> net_without_outliers [] = None \<and>
   net_nested [] = None \<and> net_assign [] = None"
  by (simp add: total_sum_def series_sum_def wrap64_def sum_by_country_def agg_by_country_def
      net_by_country_def net_without_outliers_def net_nested_def net_assign_def
      groupby_def group_keys_def agg_total_def reset_index_named_def
      reset_index_def apply_scalar_def query_median_def nested_filter_def apply_frame_def
      reset_index_drop_def assign_filter_Nil)

text \<open>
  C10, as stated, fails for the net-of-discount expression (lines 22 to 27): on the
  table without rows it does not return a result without groups.
\<close>

theorem empty_table_counterexample:
  "map_option body (net_by_country []) \<noteq> Some []"
  by (simp add: net_by_country_def groupby_def group_keys_def apply_scalar_def
      reset_index_def)

section \<open>The store\<close>

lemma grown_refl: "grown s s"
  by (simp add: grown_def)

lemma grown_append: "grown s (s @ xs)"
  by (simp add: grown_def)

lemma grown_trans:
  assumes "grown s t" and "grown t u"
  shows "grown s u"
proof -
  from assms have l: "length s \<le> length t" "length t \<le> length u"
    and st: "take (length s) t = s" and tu: "take (length t) u = t"
    by (simp_all add: grown_def)
  have "take (length s) u = take (length s) (take (length t) u)"
    using l(1) by (simp add: min_def)
  also have "\<dots> = s" by (simp only: tu st)
  finally show ?thesis using l by (simp add: grown_def)
qed

lemma grown_nth:
  assumes "grown s t" and "a < length s"
  shows "t ! a = s ! a"
proof -
  from assms(1) have "take (length s) t = s" by (simp add: grown_def)
  then have "s ! a = take (length s) t ! a" by simp
  also have "\<dots> = t ! a" using assms(2) by (rule nth_take)
  finally show ?thesis by simp
qed

lemma fresh_returning: "fresh s (returning v s)"
  by (simp add: fresh_def returning_def grown_append)

lemma fresh_raising: "fresh s (raising s)"
  by (simp add: fresh_def raising_def grown_refl)

lemma fresh_finish: "fresh s (finish False a v s)"
  by (simp add: finish_def fresh_returning)

lemmas fresh_ends = fresh_returning fresh_raising fresh_finish

lemma allocating_head: "allocating m_head"
  unfolding allocating_def m_head_def
  by (intro allI) (simp add: fresh_ends split: option.split obj.split)

lemma allocating_groupby_country: "allocating m_groupby_country"
  unfolding allocating_def m_groupby_country_def
  by (intro allI) (simp add: fresh_ends split: option.split obj.split)

lemma allocating_getitem_amount: "allocating m_getitem_amount"
  unfolding allocating_def m_getitem_amount_def
  by (intro allI) (simp add: fresh_ends split: option.split obj.split)

lemma allocating_sum: "allocating m_sum"
  unfolding allocating_def m_sum_def
  by (intro allI) (simp add: fresh_ends split: option.split obj.split)

lemma allocating_agg_total: "allocating m_agg_total"
  unfolding allocating_def m_agg_total_def
  by (intro allI) (simp add: fresh_ends split: option.split obj.split)

lemma allocating_apply_net_sum: "allocating m_apply_net_sum"
  unfolding allocating_def m_apply_net_sum_def
  by (intro allI) (simp add: fresh_ends split: option.split obj.split)

lemma allocating_apply_keep_within_median: "allocating m_apply_keep_within_median"
  unfolding allocating_def m_apply_keep_within_median_def
  by (intro allI) (simp add: fresh_ends split: option.split obj.split)

lemma allocating_reset_index: "allocating (m_reset_index False)"
  unfolding allocating_def m_reset_index_def
  by (intro allI) (simp add: fresh_ends split: option.split obj.split)

lemma allocating_reset_index_drop: "allocating (m_reset_index_drop False)"
  unfolding allocating_def m_reset_index_drop_def
  by (intro allI) (simp add: fresh_ends split: option.split obj.split)

lemma allocating_rename_total: "allocating (m_rename_total False)"
  unfolding allocating_def m_rename_total_def
  by (intro allI) (simp add: fresh_ends split: option.split obj.split)

lemma allocating_query_median: "allocating (m_query_median False)"
  unfolding allocating_def m_query_median_def
  by (intro allI) (simp add: fresh_ends split: option.split obj.split)

lemma allocating_assign_country_median: "allocating m_assign_country_median"
  unfolding allocating_def m_assign_country_median_def
  by (intro allI) (simp add: fresh_ends split: option.split obj.split)

lemma allocating_query_country_median: "allocating (m_query_country_median False)"
  unfolding allocating_def m_query_country_median_def
  by (intro allI) (simp add: fresh_ends split: option.split obj.split)

lemma fresh_then_call:
  assumes "fresh s x" and "allocating m"
  shows "fresh s (then_call x m)"
proof (cases x)
  case (Pair r t)
  show ?thesis
  proof (cases r)
    case None
    with Pair assms(1) show ?thesis by (simp add: then_call_def)
  next
    case (Some a)
    from assms(1) Pair have st: "grown s t" by (simp add: fresh_def)
    from assms(2) have f: "fresh t (m a t)" by (simp add: allocating_def)
    then have "grown t (snd (m a t))" by (simp add: fresh_def)
    with st have g: "grown s (snd (m a t))" by (rule grown_trans)
    from st have "length s \<le> length t" by (simp add: grown_def)
    with f g have "fresh s (m a t)"
      by (auto simp: fresh_def split: option.splits)
    with Pair Some show ?thesis by (simp add: then_call_def)
  qed
qed

lemma allocating_then_call:
  assumes "allocating m" and "allocating n"
  shows "allocating (\<lambda>a s. then_call (m a s) n)"
  using assms(1) fresh_then_call[OF _ assms(2)] by (simp add: allocating_def)

lemmas allocating_calls =
  allocating_head allocating_groupby_country allocating_getitem_amount allocating_sum
  allocating_agg_total allocating_apply_net_sum allocating_apply_keep_within_median
  allocating_reset_index allocating_reset_index_drop allocating_rename_total
  allocating_query_median allocating_assign_country_median allocating_query_country_median

lemma allocating_statement:
  assumes "q \<in> set script"
  shows "allocating q"
proof -
  have "allocating run_head"
    unfolding run_head_def [abs_def] by (intro allocating_calls)
  moreover have "allocating run_total_sum"
    unfolding run_total_sum_def [abs_def] by (intro allocating_then_call allocating_calls)
  moreover have "allocating run_sum_by_country"
    unfolding run_sum_by_country_def [abs_def] by (intro allocating_then_call allocating_calls)
  moreover have "allocating run_agg_by_country"
    unfolding run_agg_by_country_def [abs_def] by (intro allocating_then_call allocating_calls)
  moreover have "allocating run_net_by_country"
    unfolding run_net_by_country_def [abs_def] by (intro allocating_then_call allocating_calls)
  moreover have "allocating run_net_without_outliers"
    unfolding run_net_without_outliers_def [abs_def]
    by (intro allocating_then_call allocating_calls)
  moreover have "allocating run_net_nested"
    unfolding run_net_nested_def [abs_def] by (intro allocating_then_call allocating_calls)
  moreover have "allocating run_net_assign"
    unfolding run_net_assign_def [abs_def] by (intro allocating_then_call allocating_calls)
  ultimately show ?thesis using assms by (auto simp: script_def)
qed

text \<open>The value of each statement is the value of the expression of the script it
  stands for.\<close>

lemmas store_steps =
  then_call_def lookup_def returning_def raising_def finish_def value_of_def nth_append

lemma value_run_head:
  "p < length s \<Longrightarrow> s ! p = Frame df \<Longrightarrow> value_of (run_head p s) = Some (Frame (head df))"
  by (simp add: run_head_def m_head_def store_steps)

lemma value_run_total_sum:
  "p < length s \<Longrightarrow> s ! p = Frame df \<Longrightarrow>
     value_of (run_total_sum p s) = Some (Scalar (total_sum df))"
  by (simp add: run_total_sum_def m_getitem_amount_def m_sum_def store_steps total_sum_def)

lemma value_run_sum_by_country:
  "p < length s \<Longrightarrow> s ! p = Frame df \<Longrightarrow>
     value_of (run_sum_by_country p s) = Some (KeyedSeries (sum_by_country df))"
  by (simp add: run_sum_by_country_def m_groupby_country_def m_getitem_amount_def m_sum_def
      store_steps sum_by_country_def)

lemma value_run_agg_by_country:
  "p < length s \<Longrightarrow> s ! p = Frame df \<Longrightarrow>
     value_of (run_agg_by_country p s) = Some (Totals (agg_by_country df))"
  by (simp add: run_agg_by_country_def m_groupby_country_def m_agg_total_def
      m_reset_index_def store_steps agg_by_country_def)

lemma value_run_net_by_country:
  "p < length s \<Longrightarrow> s ! p = Frame df \<Longrightarrow>
     value_of (run_net_by_country p s) = map_option Totals (net_by_country df)"
  by (cases "reset_index (apply_scalar net_sum (groupby country df))")
     (simp_all add: run_net_by_country_def m_groupby_country_def m_apply_net_sum_def
        m_reset_index_def m_rename_total_def store_steps net_by_country_def)

lemma value_run_net_without_outliers:
  "p < length s \<Longrightarrow> s ! p = Frame df \<Longrightarrow>
     value_of (run_net_without_outliers p s) = map_option Totals (net_without_outliers df)"
  by (cases "reset_index (apply_scalar net_sum (groupby country (query_median df)))")
     (simp_all add: run_net_without_outliers_def m_query_median_def m_groupby_country_def
        m_apply_net_sum_def m_reset_index_def m_rename_total_def store_steps
        net_without_outliers_def)

lemma value_run_net_nested:
  "p < length s \<Longrightarrow> s ! p = Frame df \<Longrightarrow>
     value_of (run_net_nested p s) = map_option Totals (net_nested df)"
  by (cases "reset_index (apply_scalar net_sum (groupby country (nested_filter df)))")
     (simp_all add: run_net_nested_def m_groupby_country_def m_apply_keep_within_median_def
        m_reset_index_drop_def m_apply_net_sum_def m_reset_index_def m_rename_total_def
        store_steps net_nested_def nested_filter_def)

lemma value_run_net_assign:
  assumes "p < length s" and "s ! p = Frame df"
  shows "value_of (run_net_assign p s) = map_option Totals (net_assign df)"
proof (cases "assign_filter df")
  case None
  with assms show ?thesis
    by (simp add: run_net_assign_def m_assign_country_median_def m_query_country_median_def
        store_steps net_assign_def assign_filter_def)
next
  case (Some X)
  with assms show ?thesis
    by (cases "reset_index (apply_scalar net_sum (groupby country X))")
       (simp_all add: run_net_assign_def m_assign_country_median_def
          m_query_country_median_def m_groupby_country_def m_apply_net_sum_def
          m_reset_index_def m_rename_total_def store_steps net_assign_def assign_filter_def)
qed

lemma script_values_run:
  assumes "p < length s" and "s ! p = Frame df"
  shows "map (\<lambda>q. value_of (q p s)) script = script_values df"
  using assms
  by (simp add: script_def script_values_def value_run_head value_run_total_sum
      value_run_sum_by_country value_run_agg_by_country value_run_net_by_country
      value_run_net_without_outliers value_run_net_nested value_run_net_assign)

text \<open>The same query called in place does change the table: that the statements of
  the script do not is a property of the calls the script makes.\<close>

lemma query_in_place_changes:
  "snd (m_query_median True 0 [Frame two_countries]) ! 0 \<noteq> Frame two_countries"
  by (simp add: m_query_median_def lookup_def finish_def in_place_def query_median_def
      median_def le_cell_def times10_def two_countries_def)

lemma query_in_place_not_allocating: "\<not> allocating (m_query_median True)"
proof
  assume "allocating (m_query_median True)"
  then have "fresh [Frame two_countries] (m_query_median True 0 [Frame two_countries])"
    by (simp add: allocating_def)
  then have "snd (m_query_median True 0 [Frame two_countries]) ! 0 = [Frame two_countries] ! 0"
    by (intro grown_nth) (simp_all add: fresh_def)
  with query_in_place_changes show False by simp
qed

text \<open>
  C7. Every statement of the script, started in any store that holds the purchases
  table, leaves every object of that store as it was, the purchases table among them,
  whether it returns or raises; when it returns, its value is a new object at a new
  address.
\<close>

theorem purchases_not_mutated:
  assumes "p < length s" and "s ! p = Frame purchases" and "q \<in> set script"
  shows "take (length s) (snd (q p s)) = s \<and> snd (q p s) ! p = Frame purchases \<and>
         (case fst (q p s) of
            None \<Rightarrow> True
          | Some r \<Rightarrow> length s \<le> r \<and> r < length (snd (q p s)))"
proof -
  from assms(3) have "allocating q" by (rule allocating_statement)
  then have f: "fresh s (q p s)" by (simp add: allocating_def)
  then have g: "grown s (snd (q p s))" by (simp add: fresh_def)
  from g have "take (length s) (snd (q p s)) = s" by (simp add: grown_def)
  moreover from g assms(1,2) have "snd (q p s) ! p = Frame purchases"
    by (simp add: grown_nth)
  ultimately show ?thesis using f by (simp add: fresh_def)
qed


text \<open>Witness for C7: the nested-apply statement in the store that holds only the
  table of two refunds. The statement raises, and the table is as it was.\<close>

theorem purchases_not_mutated_witness:
  "(0::nat) < length [Frame refunds] \<and> [Frame refunds] ! 0 = Frame refunds \<and>
   run_net_nested \<in> set script \<and>
   take (length [Frame refunds]) (snd (run_net_nested 0 [Frame refunds])) = [Frame refunds] \<and>
   snd (run_net_nested 0 [Frame refunds]) ! 0 = Frame refunds \<and>
   (case fst (run_net_nested 0 [Frame refunds]) of
      None \<Rightarrow> True
    | Some r \<Rightarrow> length [Frame refunds] \<le> r \<and> r < length (snd (run_net_nested 0 [Frame refunds])))"
proof -
  have h1: "(0::nat) < length [Frame refunds]" by simp
  have h2: "[Frame refunds] ! 0 = Frame refunds" by simp
  have h3: "run_net_nested \<in> set script" by (simp add: script_def)
  from purchases_not_mutated[OF h1 h2 h3] h1 h2 h3 show ?thesis by blast
qed

lemma refunds_statement_raises: "fst (run_net_nested 0 [Frame refunds]) = None"
proof -
  have "value_of (run_net_nested 0 [Frame refunds]) = map_option Totals (net_nested refunds)"
    by (rule value_run_net_nested) simp_all
  moreover have "net_nested refunds = None"
    by (simp add: net_nested_def nested_filter_def reset_index_drop_def apply_frame_def
      keep_within_median_def median_def le_cell_def times10_def groupby_def group_keys_def
      apply_scalar_def reset_index_def refunds_def)
  moreover have "fresh [Frame refunds] (run_net_nested 0 [Frame refunds])"
    using allocating_statement[of run_net_nested] by (simp add: allocating_def script_def)
  ultimately show ?thesis
    by (cases "run_net_nested 0 [Frame refunds]")
       (auto simp: value_of_def lookup_def fresh_def split: option.splits)
qed
end
